theory Spec2Isabelle
  imports Main "HOL-Library.AList" "HOL-Library.List_Lexorder" "HOL-Library.Char_ord"
begin

section \<open>The cos-2-cos server: data\<close>

text \<open>
  The program is \<^verbatim>\<open>src/cos2cos/cos_2_cos.py\<close>: a Flask application created by
  \<^verbatim>\<open>create_server\<close>, whose five routes close over three pieces of mutable state
  (\<^verbatim>\<open>event_stats\<close>, \<^verbatim>\<open>event_history\<close>, \<^verbatim>\<open>buckets\<close>) and over the storage client.
  A route is modelled as a function from the state before the request to the outcome of
  the request and the state after it; requests are served one at a time.
\<close>

subsection \<open>Request bodies\<close>

text \<open>
  What \<^verbatim>\<open>request.get_json\<close> yields for a body that parses: Python's value for the JSON
  text. An object is the list of its items (a Python dict, in insertion order), read
  with \<open>map_of\<close>. Numbers are the integers; a float is not modelled (it is no object,
  so it would take the paths that \<open>JNum\<close> takes).
\<close>

datatype json =
    JNull
  | JBool bool
  | JNum int
  | JStr string
  | JArr "json list"
  | JObj "(string \<times> json) list"

text \<open>
  The exceptions that can leave a handler: \<^verbatim>\<open>COSError\<close> of the storage client,
  \<^verbatim>\<open>KeyError\<close> and \<^verbatim>\<open>TypeError\<close> of a subscript, the exception that
  \<^verbatim>\<open>abort(400)\<close> raises, and any other exception a collaborator raises.
\<close>

datatype exn = COSError | KeyError | TypeError | HTTPException nat | OtherException

text \<open>\<^verbatim>\<open>request.get_json(silent=True)\<close>: a body that does not parse gives \<^verbatim>\<open>None\<close>,
  which is also what the JSON text \<^verbatim>\<open>null\<close> gives.\<close>

definition get_json_silent :: "json option \<Rightarrow> json" where
  "get_json_silent body = (case body of None \<Rightarrow> JNull | Some j \<Rightarrow> j)"

text \<open>Python's truth value, as \<^verbatim>\<open>if event:\<close> tests it.\<close>

fun truthy :: "json \<Rightarrow> bool" where
  "truthy JNull = False"
| "truthy (JBool b) = b"
| "truthy (JNum n) = (n \<noteq> 0)"
| "truthy (JStr s) = (s \<noteq> [])"
| "truthy (JArr xs) = (xs \<noteq> [])"
| "truthy (JObj kvs) = (kvs \<noteq> [])"

text \<open>The subscript \<^verbatim>\<open>event['bucket']\<close>: a dict without the key raises
  \<^verbatim>\<open>KeyError\<close>, and a value that is no dict raises \<^verbatim>\<open>TypeError\<close> for a string
  index.\<close>

fun getitem :: "json \<Rightarrow> string \<Rightarrow> exn + json" where
  "getitem (JObj kvs) k = (case map_of kvs k of None \<Rightarrow> Inl KeyError | Some v \<Rightarrow> Inr v)"
| "getitem JNull k = Inl TypeError"
| "getitem (JBool b) k = Inl TypeError"
| "getitem (JNum n) k = Inl TypeError"
| "getitem (JStr s) k = Inl TypeError"
| "getitem (JArr xs) k = Inl TypeError"

subsection \<open>The storage client and the closure of \<^verbatim>\<open>create_server\<close>\<close>

text \<open>
  The module \<^verbatim>\<open>cos\<close> (\<^verbatim>\<open>CloudObjectStorage\<close>, \<^verbatim>\<open>COSError\<close>) is imported by the
  program and is not part of it, so the client is a parameter: four operations on the
  outside world \<open>'w\<close>, each of which returns normally or raises, and leaves a world
  behind. \<open>'i\<close> is the per-file information of a listing. The listing is the items of
  the dict that \<^verbatim>\<open>get_files_info\<close> returns.
\<close>

record ('w, 'i) cos_client =
  get_file :: "string \<Rightarrow> json \<Rightarrow> 'w \<Rightarrow> exn option \<times> 'w"
  put_file :: "string \<Rightarrow> json \<Rightarrow> 'w \<Rightarrow> exn option \<times> 'w"
  delete_file :: "string \<Rightarrow> json \<Rightarrow> 'w \<Rightarrow> exn option \<times> 'w"
  get_files_info :: "string \<Rightarrow> 'w \<Rightarrow> (exn + (string \<times> 'i) list) \<times> 'w"

text \<open>The arguments of \<^verbatim>\<open>create_server\<close>, and the clock that \<^verbatim>\<open>datetime.now()\<close>
  reads: a timestamp is an observation of the world, and reading it changes nothing.\<close>

record ('w, 'i) settings =
  cos_client :: "('w, 'i) cos_client"
  destination_bucket :: string
  source_bucket :: string
  datetime_now :: "'w \<Rightarrow> nat"

subsection \<open>Counters, history, state\<close>

text \<open>\<^verbatim>\<open>event_stats\<close> is created with exactly four keys and no handler adds or removes
  one: a total function on the four keys, to Python's unbounded integers.\<close>

datatype stat = cron | cron_error | cos | cos_error

text \<open>One entry of \<^verbatim>\<open>history_event['objects']\<close>.\<close>

record object_event =
  key :: json
  timestamp :: nat
  obj_source_bucket :: string
  obj_destination_bucket :: string
  status :: string

text \<open>One entry of \<^verbatim>\<open>event_history\<close>.\<close>

record history_event =
  event_id :: string
  event_timestamp :: nat
  objects :: "object_event list"

record 'w server =
  event_stats :: "stat \<Rightarrow> int"
  event_history :: "history_event list"
  buckets :: "string list"
  world :: 'w

text \<open>What a route returns: a text, the counters, or the arguments of a template.\<close>

datatype 'i body =
    Text string
  | Stats "stat \<Rightarrow> int"
  | History "history_event list"
  | Files "string list" "(string \<times> (string \<times> 'i) list) list" "string list"

text \<open>\<^verbatim>\<open>create_server\<close>: the state the routes start from.\<close>

definition create_server :: "('w, 'i) settings \<Rightarrow> 'w \<Rightarrow> 'w server" where
  "create_server env w =
     \<lparr>event_stats = (\<lambda>_. 0),
      event_history = [],
      buckets = [source_bucket env, destination_bucket env],
      world = w\<rparr>"

subsection \<open>Python's \<^verbatim>\<open>str\<close> of an integer\<close>

function str_nat :: "nat \<Rightarrow> string" where
  "str_nat n =
     (if n < 10 then [''0123456789'' ! n]
      else str_nat (n div 10) @ [''0123456789'' ! (n mod 10)])"
  by pat_completeness auto
termination
  by (relation "measure id") auto

declare str_nat.simps [simp del]

definition str_int :: "int \<Rightarrow> string" where
  "str_int i = (if i < 0 then CHR ''-'' # str_nat (nat (- i)) else str_nat (nat i))"

section \<open>The migration of one file\<close>

text \<open>
  \<^verbatim>\<open>FileHandler.do\<close>: download, upload, delete. An exception of the download or the
  upload leaves \<^verbatim>\<open>do\<close> at once. The delete is inside \<^verbatim>\<open>try\<close>: a \<^verbatim>\<open>COSError\<close> is
  logged and raised again, any other exception is not caught. The result is the
  exception that leaves \<^verbatim>\<open>do\<close>, if any, and the world after the last call made.
\<close>

definition FileHandler_do ::
  "('w, 'i) cos_client \<Rightarrow> string \<Rightarrow> string \<Rightarrow> json \<Rightarrow> 'w \<Rightarrow> exn option \<times> 'w" where
  "FileHandler_do client src dst file w =
     (case get_file client src file w of
        (Some e, w1) \<Rightarrow> (Some e, w1)
      | (None, w1) \<Rightarrow>
          (case put_file client dst file w1 of
             (Some e, w2) \<Rightarrow> (Some e, w2)
           | (None, w2) \<Rightarrow>
               (case delete_file client src file w2 of
                  (Some e, w3) \<Rightarrow> (if e = COSError then (Some e, w3) else (Some e, w3))
                | (None, w3) \<Rightarrow> (None, w3))))"

text \<open>
  The block \<^verbatim>\<open>try: handler.do() except COSError: status = 'Deletion Error'\<close>, which both
  POST handlers contain: the status to record, or the exception that is not caught.
\<close>

definition try_do ::
  "('w, 'i) settings \<Rightarrow> json \<Rightarrow> 'w \<Rightarrow> (exn + string) \<times> 'w" where
  "try_do env file w =
     (case FileHandler_do (cos_client env) (source_bucket env) (destination_bucket env) file w of
        (None, w') \<Rightarrow> (Inr ''OK'', w')
      | (Some e, w') \<Rightarrow>
          (if e = COSError then (Inr ''Deletion Error'', w') else (Inl e, w')))"

section \<open>The routes\<close>

subsection \<open>\<^verbatim>\<open>POST /events/cos\<close>\<close>

definition handle_cos_event ::
  "('w, 'i) settings \<Rightarrow> json option \<Rightarrow> 'w server \<Rightarrow> (exn + 'i body) \<times> 'w server" where
  "handle_cos_event env body s =
     (let event_ts = datetime_now env (world s);
          event = get_json_silent body
      in if truthy event then
           (case getitem event ''bucket'' of
              Inl e \<Rightarrow> (Inl e, s)
            | Inr bucket \<Rightarrow>
                if bucket \<noteq> JStr (source_bucket env) then
                  (Inl (HTTPException 400),
                   s\<lparr>event_stats := (event_stats s)(cos_error := event_stats s cos_error + 1)\<rparr>)
                else
                  (let s1 = s\<lparr>event_stats := (event_stats s)(cos := event_stats s cos + 1)\<rparr>
                   in case getitem event ''key'' of
                        Inl e \<Rightarrow> (Inl e, s1)
                      | Inr source_object \<Rightarrow>
                          (case try_do env source_object (world s1) of
                             (Inl e, w) \<Rightarrow> (Inl e, s1\<lparr>world := w\<rparr>)
                           | (Inr event_status, w) \<Rightarrow>
                               (let history_ev =
                                      \<lparr>event_id = ''cos-'' @ str_int (event_stats s1 cos),
                                       event_timestamp = event_ts,
                                       objects =
                                         [\<lparr>key = source_object,
                                           timestamp = datetime_now env w,
                                           obj_source_bucket = source_bucket env,
                                           obj_destination_bucket = destination_bucket env,
                                           status = event_status\<rparr>]\<rparr>
                                in (Inr (Text ''OK''),
                                    s1\<lparr>world := w,
                                       event_history := event_history s1 @ [history_ev],
                                       buckets :=
                                         (if source_bucket env \<notin> set (buckets s1)
                                          then buckets s1 @ [source_bucket env]
                                          else buckets s1)\<rparr>)))))
         else
           (Inl (HTTPException 400),
            s\<lparr>event_stats := (event_stats s)(cos_error := event_stats s cos_error + 1)\<rparr>))"

subsection \<open>\<^verbatim>\<open>POST /events/cron\<close>\<close>

text \<open>The loop over \<^verbatim>\<open>source_inventory.keys()\<close>: \<open>objs\<close> is
  \<^verbatim>\<open>history_event['objects']\<close> so far. An exception that the \<^verbatim>\<open>try\<close> does not catch
  ends the loop and the handler.\<close>

fun reconcile ::
  "('w, 'i) settings \<Rightarrow> string list \<Rightarrow> object_event list \<Rightarrow> 'w \<Rightarrow>
     (exn + object_event list) \<times> 'w" where
  "reconcile env [] objs w = (Inr objs, w)"
| "reconcile env (file # files) objs w =
     (case try_do env (JStr file) w of
        (Inl e, w') \<Rightarrow> (Inl e, w')
      | (Inr object_status, w') \<Rightarrow>
          reconcile env files
            (objs @ [\<lparr>key = JStr file,
                      timestamp = datetime_now env w',
                      obj_source_bucket = source_bucket env,
                      obj_destination_bucket = destination_bucket env,
                      status = object_status\<rparr>]) w')"

definition handle_cron_event ::
  "('w, 'i) settings \<Rightarrow> json option \<Rightarrow> 'w server \<Rightarrow> (exn + 'i body) \<times> 'w server" where
  "handle_cron_event env body s =
     (let event = get_json_silent body
      in if truthy event then
           (let s1 = s\<lparr>event_stats := (event_stats s)(cron := event_stats s cron + 1)\<rparr>;
                event_ts = datetime_now env (world s1);
                ident = ''cron-'' @ str_int (event_stats s1 cron)
            in case get_files_info (cos_client env) (source_bucket env) (world s1) of
                 (Inl e, w) \<Rightarrow> (Inl e, s1\<lparr>world := w\<rparr>)
               | (Inr source_inventory, w) \<Rightarrow>
                   (case reconcile env (map fst source_inventory) [] w of
                      (Inl e, w') \<Rightarrow> (Inl e, s1\<lparr>world := w'\<rparr>)
                    | (Inr objs, w') \<Rightarrow>
                        (Inr (Text ''OK''),
                         s1\<lparr>world := w',
                            event_history := event_history s1 @
                              [\<lparr>event_id = ident, event_timestamp = event_ts,
                                objects = objs\<rparr>]\<rparr>)))
         else
           (Inl (HTTPException 400),
            s\<lparr>event_stats := (event_stats s)(cron_error := event_stats s cron_error + 1)\<rparr>))"

subsection \<open>The GET routes\<close>

text \<open>\<^verbatim>\<open>get_files\<close>: the inner loop stores the information of file \<open>f\<close> in bucket \<open>b\<close>
  under \<^verbatim>\<open>file_inventory[f][b]\<close>; the outer loop lists every tracked bucket.\<close>

definition add_bucket_files ::
  "string \<Rightarrow> (string \<times> 'i) list \<Rightarrow> (string \<times> (string \<times> 'i) list) list \<Rightarrow>
     (string \<times> (string \<times> 'i) list) list" where
  "add_bucket_files b bucket_files files =
     fold (\<lambda>(f, f_info) acc.
             AList.update f
               (AList.update b f_info (case map_of acc f of None \<Rightarrow> [] | Some d \<Rightarrow> d)) acc)
          bucket_files files"

fun file_inventory ::
  "('w, 'i) cos_client \<Rightarrow> string list \<Rightarrow> (string \<times> (string \<times> 'i) list) list \<Rightarrow> 'w \<Rightarrow>
     (exn + (string \<times> (string \<times> 'i) list) list) \<times> 'w" where
  "file_inventory client [] files w = (Inr files, w)"
| "file_inventory client (b # bs) files w =
     (case get_files_info client b w of
        (Inl e, w') \<Rightarrow> (Inl e, w')
      | (Inr bucket_files, w') \<Rightarrow>
          file_inventory client bs (add_bucket_files b bucket_files files) w')"

definition get_files ::
  "('w, 'i) settings \<Rightarrow> 'w server \<Rightarrow> (exn + 'i body) \<times> 'w server" where
  "get_files env s =
     (case file_inventory (cos_client env) (buckets s) [] (world s) of
        (Inl e, w) \<Rightarrow> (Inl e, s\<lparr>world := w\<rparr>)
      | (Inr files, w) \<Rightarrow>
          (Inr (Files (sort (map fst files)) files (buckets s)), s\<lparr>world := w\<rparr>))"

definition get_event_stats :: "'w server \<Rightarrow> (exn + 'i body) \<times> 'w server" where
  "get_event_stats s = (Inr (Stats (event_stats s)), s)"

definition get_event_history :: "'w server \<Rightarrow> (exn + 'i body) \<times> 'w server" where
  "get_event_history s = (Inr (History (event_history s)), s)"

subsection \<open>The application\<close>

datatype request =
    GET_files
  | GET_events_stats
  | GET_events_history
  | POST_events_cos "json option"
  | POST_events_cron "json option"

fun serve ::
  "('w, 'i) settings \<Rightarrow> request \<Rightarrow> 'w server \<Rightarrow> (exn + 'i body) \<times> 'w server" where
  "serve env GET_files s = get_files env s"
| "serve env GET_events_stats s = get_event_stats s"
| "serve env GET_events_history s = get_event_history s"
| "serve env (POST_events_cos body) s = handle_cos_event env body s"
| "serve env (POST_events_cron body) s = handle_cron_event env body s"

text \<open>The state after a sequence of requests, served in order.\<close>

fun run :: "('w, 'i) settings \<Rightarrow> request list \<Rightarrow> 'w server \<Rightarrow> 'w server" where
  "run env [] s = s"
| "run env (r # rs) s = run env rs (snd (serve env r s))"

section \<open>Notions used to state the properties\<close>

text \<open>The storage client keeps to its contract when an operation on a file either
  returns or raises \<^verbatim>\<open>COSError\<close>, the storage error, and nothing else.\<close>

definition raises_only_COSError :: "('w, 'i) cos_client \<Rightarrow> bool" where
  "raises_only_COSError c \<longleftrightarrow>
     (\<forall>b f w. fst (get_file c b f w) = None \<or> fst (get_file c b f w) = Some COSError) \<and>
     (\<forall>b f w. fst (put_file c b f w) = None \<or> fst (put_file c b f w) = Some COSError) \<and>
     (\<forall>b f w. fst (delete_file c b f w) = None \<or> fst (delete_file c b f w) = Some COSError)"

text \<open>The counter that a request increments, read off the two POST handlers: none for
  a GET, and none for a notification whose body is truthy and has no \<^verbatim>\<open>'bucket'\<close>
  entry to read.\<close>

definition counter_of :: "('w, 'i) settings \<Rightarrow> request \<Rightarrow> stat option" where
  "counter_of env r =
     (case r of
        POST_events_cron body \<Rightarrow>
          Some (if truthy (get_json_silent body) then cron else cron_error)
      | POST_events_cos body \<Rightarrow>
          (if truthy (get_json_silent body) then
             (case getitem (get_json_silent body) ''bucket'' of
                Inl e \<Rightarrow> None
              | Inr bucket \<Rightarrow>
                  Some (if bucket = JStr (source_bucket env) then cos else cos_error))
           else Some cos_error)
      | _ \<Rightarrow> None)"

definition is_notification :: "request \<Rightarrow> bool" where
  "is_notification r = (case r of POST_events_cos body \<Rightarrow> True | _ \<Rightarrow> False)"


text \<open>A notification that reaches one of the two counter updates of its handler: its
  body is falsy (or does not parse), or has a \<^verbatim>\<open>'bucket'\<close> entry.\<close>

definition counted_notification :: "request \<Rightarrow> bool" where
  "counted_notification r =
     (case r of
        POST_events_cos body \<Rightarrow>
          (if truthy (get_json_silent body) then
             (case getitem (get_json_silent body) ''bucket'' of
                Inl e \<Rightarrow> False
              | Inr bucket \<Rightarrow> True)
           else True)
      | _ \<Rightarrow> False)"

text \<open>The sweep, file by file. \<open>sweep_world env fs w\<close> is the world after \<^verbatim>\<open>do\<close> has
  run, in order, for each file of \<open>fs\<close>, from the world \<open>w\<close>. \<open>sweep_entry env f w\<close> is
  the entry for the file \<open>f\<close> when \<^verbatim>\<open>do\<close> runs for it in the world \<open>w\<close>: its status is
  \<^verbatim>\<open>'OK'\<close> when \<^verbatim>\<open>do\<close> returns and \<^verbatim>\<open>'Deletion Error'\<close> when it raises, and its
  timestamp is read in the world that \<^verbatim>\<open>do\<close> leaves. \<open>sweep_entries env fs w\<close> has, at
  position \<open>i\<close>, the entry of the \<open>i\<close>-th file in the world that the files before it
  left.\<close>

fun sweep_world :: "('w, 'i) settings \<Rightarrow> string list \<Rightarrow> 'w \<Rightarrow> 'w" where
  "sweep_world env [] w = w"
| "sweep_world env (f # fs) w =
     sweep_world env fs
       (snd (FileHandler_do (cos_client env) (source_bucket env) (destination_bucket env)
               (JStr f) w))"

definition sweep_entry :: "('w, 'i) settings \<Rightarrow> string \<Rightarrow> 'w \<Rightarrow> object_event" where
  "sweep_entry env f w =
     \<lparr>key = JStr f,
      timestamp = datetime_now env
        (snd (FileHandler_do (cos_client env) (source_bucket env) (destination_bucket env)
                (JStr f) w)),
      obj_source_bucket = source_bucket env,
      obj_destination_bucket = destination_bucket env,
      status =
        (if fst (FileHandler_do (cos_client env) (source_bucket env) (destination_bucket env)
                   (JStr f) w) = None
         then ''OK'' else ''Deletion Error'')\<rparr>"

definition sweep_entries :: "('w, 'i) settings \<Rightarrow> string list \<Rightarrow> 'w \<Rightarrow> object_event list" where
  "sweep_entries env fs w =
     map (\<lambda>i. sweep_entry env (fs ! i) (sweep_world env (take i fs) w)) [0..<length fs]"

subsection \<open>A storage client to run the handlers on\<close>

text \<open>
  A client for concrete runs: its world is the log of the calls made on it, a call
  listed in \<open>failing\<close> raises \<^verbatim>\<open>COSError\<close>, and every listing returns \<open>listing\<close>.
  The clock reads the length of the log.
\<close>

datatype call = Get string json | Put string json | Delete string json | Listing string

definition scripted_client :: "call list \<Rightarrow> (string \<times> 'i) list \<Rightarrow> (call list, 'i) cos_client" where
  "scripted_client failing listing =
     \<lparr>get_file = (\<lambda>b f w.
        (if Get b f \<in> set failing then Some COSError else None, w @ [Get b f])),
      put_file = (\<lambda>b f w.
        (if Put b f \<in> set failing then Some COSError else None, w @ [Put b f])),
      delete_file = (\<lambda>b f w.
        (if Delete b f \<in> set failing then Some COSError else None, w @ [Delete b f])),
      get_files_info = (\<lambda>b w.
        (if Listing b \<in> set failing then Inl COSError else Inr listing, w @ [Listing b]))\<rparr>"

definition scripted :: "call list \<Rightarrow> (string \<times> unit) list \<Rightarrow> (call list, unit) settings" where
  "scripted failing listing =
     \<lparr>cos_client = scripted_client failing listing,
      destination_bucket = ''dst'',
      source_bucket = ''src'',
      datetime_now = length\<rparr>"

text \<open>A well-formed notification body, and a history entry that names the configured
  buckets.\<close>

definition notification :: "string \<Rightarrow> string \<Rightarrow> json" where
  "notification b k = JObj [(''bucket'', JStr b), (''key'', JStr k)]"

definition configured :: "('w, 'i) settings \<Rightarrow> object_event \<Rightarrow> bool" where
  "configured env ob \<longleftrightarrow>
     obj_destination_bucket ob = destination_bucket env \<and>
     obj_source_bucket ob = source_bucket env"

text \<open>Four storage scripts: the download of \<open>a\<close> fails; the upload of \<open>a\<close> fails;
  the delete of \<open>a\<close> fails; a source bucket with three files, where the download of
  \<open>b\<close> and the delete of \<open>c\<close> fail.\<close>

definition fetch_fails :: "(call list, unit) settings" where
  "fetch_fails = scripted [Get ''src'' (JStr ''a'')] []"

definition store_fails :: "(call list, unit) settings" where
  "store_fails = scripted [Put ''dst'' (JStr ''a'')] []"

definition delete_fails :: "(call list, unit) settings" where
  "delete_fails = scripted [Delete ''src'' (JStr ''a'')] []"

definition three_files :: "(call list, unit) settings" where
  "three_files =
     scripted [Get ''src'' (JStr ''b''), Delete ''src'' (JStr ''c'')]
       [(''a'', ()), (''b'', ()), (''c'', ())]"

text \<open>A client outside the contract: the download of \<open>b\<close> raises an exception that is
  not \<^verbatim>\<open>COSError\<close>; the source bucket lists three files.\<close>

definition crash_on_b :: "(call list, unit) settings" where
  "crash_on_b =
     \<lparr>cos_client =
        \<lparr>get_file = (\<lambda>b f w.
           (if f = JStr ''b'' then Some OtherException else None, w @ [Get b f])),
         put_file = (\<lambda>b f w. (None, w @ [Put b f])),
         delete_file = (\<lambda>b f w. (None, w @ [Delete b f])),
         get_files_info = (\<lambda>b w.
           (Inr [(''a'', ()), (''b'', ()), (''c'', ())], w @ [Listing b]))\<rparr>,
      destination_bucket = ''dst'',
      source_bucket = ''src'',
      datetime_now = length\<rparr>"

section \<open>Lemmas about the handlers\<close>

lemmas run_defs = handle_cos_event_def handle_cron_event_def try_do_def FileHandler_do_def
  get_json_silent_def create_server_def scripted_def scripted_client_def str_int_def Let_def
  get_files_def get_event_stats_def get_event_history_def str_nat.simps notification_def
  fetch_fails_def store_fails_def delete_fails_def three_files_def

text \<open>Only a non-empty dict has an entry to read, and such a value is truthy.\<close>

lemma getitem_Inr_truthy: "getitem j k = Inr v \<Longrightarrow> truthy j"
  by (cases j) (auto split: option.splits)

text \<open>With a client that keeps to its contract, \<^verbatim>\<open>do\<close> returns or raises
  \<^verbatim>\<open>COSError\<close>, so the \<^verbatim>\<open>try\<close> of the handlers always yields a status.\<close>

lemma FileHandler_do_contract:
  assumes "raises_only_COSError c"
  shows "fst (FileHandler_do c src dst f w) = None \<or>
         fst (FileHandler_do c src dst f w) = Some COSError"
proof -
  have g: "\<And>b f w. fst (get_file c b f w) = None \<or> fst (get_file c b f w) = Some COSError"
    and p: "\<And>b f w. fst (put_file c b f w) = None \<or> fst (put_file c b f w) = Some COSError"
    and d: "\<And>b f w. fst (delete_file c b f w) = None \<or>
                      fst (delete_file c b f w) = Some COSError"
    using assms by (simp_all add: raises_only_COSError_def)
  show ?thesis
    using g[of src f w] p[of dst f "snd (get_file c src f w)"]
      d[of src f "snd (put_file c dst f (snd (get_file c src f w)))"]
    by (auto simp: FileHandler_do_def split: prod.splits option.splits)
qed

lemma try_do_contract:
  assumes "raises_only_COSError (cos_client env)"
  shows "\<exists>st. fst (try_do env f w) = Inr st"
  using FileHandler_do_contract[OF assms, of "source_bucket env" "destination_bucket env" f w]
  by (auto simp: try_do_def split: prod.splits option.splits)

lemma scripted_contract: "raises_only_COSError (cos_client (scripted failing listing))"
  by (simp add: raises_only_COSError_def scripted_def scripted_client_def)

text \<open>With such a client the \<^verbatim>\<open>try\<close> records \<^verbatim>\<open>'OK'\<close> when \<^verbatim>\<open>do\<close> returns and
  \<^verbatim>\<open>'Deletion Error'\<close> when it raises, and the loop of the sweep runs to its end: it
  attempts every file, each in the world the files before it left.\<close>

lemma try_do_contract_eq:
  assumes "raises_only_COSError (cos_client env)"
  shows "try_do env k w =
     (Inr (if fst (FileHandler_do (cos_client env) (source_bucket env) (destination_bucket env)
                     k w) = None
           then ''OK'' else ''Deletion Error''),
      snd (FileHandler_do (cos_client env) (source_bucket env) (destination_bucket env) k w))"
  using FileHandler_do_contract[OF assms, of "source_bucket env" "destination_bucket env" k w]
  by (auto simp: try_do_def split: prod.splits option.splits)

lemma sweep_entries_Nil: "sweep_entries env [] w = []"
  by (simp add: sweep_entries_def)

lemma sweep_entries_Cons:
  "sweep_entries env (f # fs) w =
     sweep_entry env f w #
     sweep_entries env fs
       (snd (FileHandler_do (cos_client env) (source_bucket env) (destination_bucket env)
               (JStr f) w))"
  unfolding sweep_entries_def length_Cons map_upt_Suc by simp

lemma reconcile_sweep:
  assumes "raises_only_COSError (cos_client env)"
  shows "reconcile env fs acc w = (Inr (acc @ sweep_entries env fs w), sweep_world env fs w)"
proof (induction fs arbitrary: acc w)
  case Nil
  then show ?case by (simp add: sweep_entries_Nil)
next
  case (Cons f fs)
  show ?case
    by (simp add: try_do_contract_eq[OF assms] Cons.IH sweep_entries_Cons sweep_entry_def)
qed

lemma sweep_world_append:
  "sweep_world env (xs @ ys) w = sweep_world env ys (sweep_world env xs w)"
  by (induction xs arbitrary: w) simp_all

lemma sweep_world_take_Suc:
  assumes "i < length fs"
  shows "sweep_world env (take (Suc i) fs) w =
     snd (FileHandler_do (cos_client env) (source_bucket env) (destination_bucket env)
            (JStr (fs ! i)) (sweep_world env (take i fs) w))"
  using assms by (simp add: take_Suc_conv_app_nth sweep_world_append)

lemma handle_cron_event_sweep:
  assumes "truthy (get_json_silent body)"
    and "raises_only_COSError (cos_client env)"
    and "get_files_info (cos_client env) (source_bucket env) (world s) = (Inr listing, w)"
  shows "handle_cron_event env body s =
           (Inr (Text ''OK''),
            s\<lparr>event_stats := (event_stats s)(cron := event_stats s cron + 1),
              world := sweep_world env (map fst listing) w,
              event_history := event_history s @
                [\<lparr>event_id = ''cron-'' @ str_int (event_stats s cron + 1),
                  event_timestamp = datetime_now env (world s),
                  objects = sweep_entries env (map fst listing) w\<rparr>]\<rparr>)"
  using assms(1,3) reconcile_sweep[OF assms(2), of "map fst listing" "[]" w]
  by (simp add: handle_cron_event_def Let_def)

lemma handle_cron_event_raises:
  "fst (handle_cron_event env body s) = Inl e \<Longrightarrow>
     event_history (snd (handle_cron_event env body s)) = event_history s"
  by (auto simp: handle_cron_event_def Let_def split: prod.splits sum.splits if_splits)

lemma length_sweep_entries: "length (sweep_entries env fs w) = length fs"
  by (simp add: sweep_entries_def)

lemma key_sweep_entries: "map key (sweep_entries env fs w) = map JStr fs"
  by (rule nth_equalityI) (simp_all add: sweep_entries_def sweep_entry_def)

lemma sweep_entries_nth:
  "i < length fs \<Longrightarrow>
     sweep_entries env fs w ! i = sweep_entry env (fs ! i) (sweep_world env (take i fs) w)"
  by (simp add: sweep_entries_def)

text \<open>What one request does to the counters.\<close>

lemma serve_event_stats:
  "event_stats (snd (serve env r s)) =
     (case counter_of env r of
        None \<Rightarrow> event_stats s
      | Some k \<Rightarrow> (event_stats s)(k := event_stats s k + 1))"
proof (cases r)
  case GET_files
  then show ?thesis by (simp add: counter_of_def get_files_def split: prod.splits sum.splits)
next
  case GET_events_stats
  then show ?thesis by (simp add: counter_of_def get_event_stats_def)
next
  case GET_events_history
  then show ?thesis by (simp add: counter_of_def get_event_history_def)
next
  case (POST_events_cos body)
  then show ?thesis
    by (simp add: counter_of_def handle_cos_event_def Let_def split: prod.splits sum.splits)
next
  case (POST_events_cron body)
  then show ?thesis
    by (simp add: counter_of_def handle_cron_event_def Let_def split: prod.splits sum.splits)
qed

lemma serve_cos_total:
  "event_stats (snd (serve env r s)) cos + event_stats (snd (serve env r s)) cos_error =
     event_stats s cos + event_stats s cos_error + (if counted_notification r then 1 else 0)"
  unfolding serve_event_stats
  by (cases r) (simp_all add: counter_of_def counted_notification_def split: sum.splits)

lemma run_cos_total:
  "event_stats (run env rs s) cos + event_stats (run env rs s) cos_error =
     event_stats s cos + event_stats s cos_error + int (length (filter counted_notification rs))"
proof (induction rs arbitrary: s)
  case Nil
  then show ?case by simp
next
  case (Cons r rs)
  show ?case using Cons.IH[of "snd (serve env r s)"] serve_cos_total[of env r s] by simp
qed

lemma counted_le_notifications:
  "length (filter counted_notification rs) \<le> length (filter is_notification rs)"
  by (induction rs)
    (auto simp: counted_notification_def is_notification_def split: request.splits)

text \<open>The list of tracked buckets, once it holds the source bucket, stays as it is.\<close>

lemma serve_buckets:
  "source_bucket env \<in> set (buckets s) \<Longrightarrow> buckets (snd (serve env r s)) = buckets s"
  by (cases r)
    (simp_all add: get_files_def get_event_stats_def get_event_history_def
      handle_cos_event_def handle_cron_event_def Let_def split: prod.splits sum.splits)

lemma run_buckets:
  "source_bucket env \<in> set (buckets s) \<Longrightarrow> buckets (run env rs s) = buckets s"
  by (induction rs arbitrary: s) (simp_all add: serve_buckets)

text \<open>Every entry that a handler writes names the configured buckets.\<close>

lemma reconcile_configured:
  "reconcile env files acc w = (Inr objs, w') \<Longrightarrow> list_all (configured env) acc \<Longrightarrow>
     list_all (configured env) objs"
  by (induction files arbitrary: acc w)
    (auto simp: configured_def split: prod.splits sum.splits)

lemma serve_configured:
  assumes "list_all (\<lambda>h. list_all (configured env) (objects h)) (event_history s)"
  shows "list_all (\<lambda>h. list_all (configured env) (objects h))
           (event_history (snd (serve env r s)))"
proof (cases r)
  case (POST_events_cos body)
  then show ?thesis using assms
    by (simp add: handle_cos_event_def Let_def configured_def split: prod.splits sum.splits)
next
  case (POST_events_cron body)
  then show ?thesis using assms reconcile_configured[of env _ "[]"]
    by (auto simp add: handle_cron_event_def Let_def split: prod.splits sum.splits)
qed (use assms in \<open>simp_all add: get_files_def get_event_stats_def get_event_history_def
      split: prod.splits sum.splits\<close>)

lemma run_configured:
  "list_all (\<lambda>h. list_all (configured env) (objects h)) (event_history s) \<Longrightarrow>
   list_all (\<lambda>h. list_all (configured env) (objects h)) (event_history (run env rs s))"
  by (induction rs arbitrary: s) (simp_all add: serve_configured)

section \<open>The claims\<close>

text \<open>C1 (evaluation at the failing input). A \<^verbatim>\<open>COSError\<close> of the download, or of the
  upload, of a notification's file is caught by the handler's \<^verbatim>\<open>except COSError\<close>:
  the trigger answers \<^verbatim>\<open>'OK'\<close>, no later step is called, and the history grows by a
  record whose one entry has the status \<^verbatim>\<open>'Deletion Error'\<close>.\<close>

theorem fetch_or_store_error_is_recorded:
  assumes "getitem ev ''bucket'' = Inr (JStr (source_bucket env))"
    and "getitem ev ''key'' = Inr k"
    and "get_file (cos_client env) (source_bucket env) k (world s) = (Some COSError, w1) \<or>
         (get_file (cos_client env) (source_bucket env) k (world s) = (None, w0) \<and>
          put_file (cos_client env) (destination_bucket env) k w0 = (Some COSError, w1))"
  shows "fst (handle_cos_event env (Some ev) s) = Inr (Text ''OK'') \<and>
         world (snd (handle_cos_event env (Some ev) s)) = w1 \<and>
         event_history (snd (handle_cos_event env (Some ev) s)) =
           event_history s @
             [\<lparr>event_id = ''cos-'' @ str_int (event_stats s cos + 1),
               event_timestamp = datetime_now env (world s),
               objects =
                 [\<lparr>key = k,
                   timestamp = datetime_now env w1,
                   obj_source_bucket = source_bucket env,
                   obj_destination_bucket = destination_bucket env,
                   status = ''Deletion Error''\<rparr>]\<rparr>]"
  using assms getitem_Inr_truthy[OF assms(1)]
  by (auto simp: handle_cos_event_def try_do_def FileHandler_do_def get_json_silent_def Let_def)

theorem fetch_or_store_error_is_recorded_witness:
  "getitem (notification ''src'' ''a'') ''bucket'' = Inr (JStr (source_bucket fetch_fails)) \<and>
   getitem (notification ''src'' ''a'') ''key'' = Inr (JStr ''a'') \<and>
   get_file (cos_client fetch_fails) (source_bucket fetch_fails) (JStr ''a'')
     (world (create_server fetch_fails [])) = (Some COSError, [Get ''src'' (JStr ''a'')]) \<and>
   fst (handle_cos_event fetch_fails (Some (notification ''src'' ''a''))
         (create_server fetch_fails [])) = Inr (Text ''OK'') \<and>
   world (snd (handle_cos_event fetch_fails (Some (notification ''src'' ''a''))
         (create_server fetch_fails []))) = [Get ''src'' (JStr ''a'')] \<and>
   event_history (snd (handle_cos_event fetch_fails (Some (notification ''src'' ''a''))
         (create_server fetch_fails []))) =
     [\<lparr>event_id = ''cos-1'', event_timestamp = 0,
       objects = [\<lparr>key = JStr ''a'', timestamp = 1, obj_source_bucket = ''src'',
                   obj_destination_bucket = ''dst'', status = ''Deletion Error''\<rparr>]\<rparr>] \<and>
   get_file (cos_client store_fails) (source_bucket store_fails) (JStr ''a'')
     (world (create_server store_fails [])) = (None, [Get ''src'' (JStr ''a'')]) \<and>
   put_file (cos_client store_fails) (destination_bucket store_fails) (JStr ''a'')
     [Get ''src'' (JStr ''a'')] =
     (Some COSError, [Get ''src'' (JStr ''a''), Put ''dst'' (JStr ''a'')]) \<and>
   fst (handle_cos_event store_fails (Some (notification ''src'' ''a''))
         (create_server store_fails [])) = Inr (Text ''OK'') \<and>
   world (snd (handle_cos_event store_fails (Some (notification ''src'' ''a''))
         (create_server store_fails []))) =
     [Get ''src'' (JStr ''a''), Put ''dst'' (JStr ''a'')] \<and>
   event_history (snd (handle_cos_event store_fails (Some (notification ''src'' ''a''))
         (create_server store_fails []))) =
     [\<lparr>event_id = ''cos-1'', event_timestamp = 0,
       objects = [\<lparr>key = JStr ''a'', timestamp = 2, obj_source_bucket = ''src'',
                   obj_destination_bucket = ''dst'', status = ''Deletion Error''\<rparr>]\<rparr>]"
proof -
  have b: "getitem (notification ''src'' ''a'') ''bucket'' = Inr (JStr (source_bucket fetch_fails))"
    by (simp add: run_defs)
  have b': "getitem (notification ''src'' ''a'') ''bucket'' = Inr (JStr (source_bucket store_fails))"
    by (simp add: run_defs)
  have g': "get_file (cos_client store_fails) (source_bucket store_fails) (JStr ''a'')
     (world (create_server store_fails [])) = (None, [Get ''src'' (JStr ''a'')])"
    by (simp add: run_defs)
  have p': "put_file (cos_client store_fails) (destination_bucket store_fails) (JStr ''a'')
     [Get ''src'' (JStr ''a'')] =
     (Some COSError, [Get ''src'' (JStr ''a''), Put ''dst'' (JStr ''a'')])"
    by (simp add: run_defs)
  have k: "getitem (notification ''src'' ''a'') ''key'' = Inr (JStr ''a'')"
    by (simp add: run_defs)
  have g: "get_file (cos_client fetch_fails) (source_bucket fetch_fails) (JStr ''a'')
     (world (create_server fetch_fails [])) = (Some COSError, [Get ''src'' (JStr ''a'')])"
    by (simp add: run_defs)
  show ?thesis
    using b k g g' p' fetch_or_store_error_is_recorded[OF b k disjI1, OF g]
      fetch_or_store_error_is_recorded[OF b' k disjI2, OF conjI, OF g' p']
    by (simp add: run_defs)
qed

text \<open>C2. Let the migration of a file \<open>k\<close>, started in a world \<open>w0\<close>, have its
  download and its upload succeed and its delete raise \<^verbatim>\<open>COSError\<close>, leaving the world
  \<open>w3\<close>. Then \<^verbatim>\<open>do\<close> raises the error again and the \<^verbatim>\<open>try\<close> of the handlers turns it
  into the status \<^verbatim>\<open>'Deletion Error'\<close>. A notification for \<open>k\<close> served in \<open>w0\<close> answers
  \<^verbatim>\<open>'OK'\<close>, appends a record whose one entry has that status, and leaves the world
  \<open>w3\<close>: no call follows the delete, so the upload stands. The loop of a sweep that
  reaches \<open>k\<close> in \<open>w0\<close> records that status for it and goes on with the remaining files
  from \<open>w3\<close>; and a sweep (with a client whose file operations fail only with the storage
  error) whose \<open>i\<close>-th file is \<open>k\<close>, reached in \<open>w0\<close>, answers \<^verbatim>\<open>'OK'\<close>, appends one
  record whose \<open>i\<close>-th entry has the key \<open>k\<close> and that status, and attempts the next file
  in \<open>w3\<close>.\<close>

theorem delete_failure_is_recorded_not_raised:
  assumes "get_file (cos_client env) (source_bucket env) k w0 = (None, w1)"
    and "put_file (cos_client env) (destination_bucket env) k w1 = (None, w2)"
    and "delete_file (cos_client env) (source_bucket env) k w2 = (Some COSError, w3)"
  shows "FileHandler_do (cos_client env) (source_bucket env) (destination_bucket env) k w0 =
           (Some COSError, w3) \<and>
         try_do env k w0 = (Inr ''Deletion Error'', w3) \<and>
         (\<forall>ev s.
            getitem ev ''bucket'' = Inr (JStr (source_bucket env)) \<and>
            getitem ev ''key'' = Inr k \<and> world s = w0 \<longrightarrow>
            handle_cos_event env (Some ev) s =
              (Inr (Text ''OK''),
               s\<lparr>event_stats := (event_stats s)(cos := event_stats s cos + 1),
                 world := w3,
                 event_history := event_history s @
                   [\<lparr>event_id = ''cos-'' @ str_int (event_stats s cos + 1),
                     event_timestamp = datetime_now env (world s),
                     objects =
                       [\<lparr>key = k,
                         timestamp = datetime_now env w3,
                         obj_source_bucket = source_bucket env,
                         obj_destination_bucket = destination_bucket env,
                         status = ''Deletion Error''\<rparr>]\<rparr>],
                 buckets :=
                   (if source_bucket env \<notin> set (buckets s)
                    then buckets s @ [source_bucket env] else buckets s)\<rparr>)) \<and>
         (\<forall>f fs acc.
            k = JStr f \<longrightarrow>
            reconcile env (f # fs) acc w0 =
              reconcile env fs
                (acc @ [\<lparr>key = JStr f,
                         timestamp = datetime_now env w3,
                         obj_source_bucket = source_bucket env,
                         obj_destination_bucket = destination_bucket env,
                         status = ''Deletion Error''\<rparr>]) w3) \<and>
         (\<forall>body s listing w i.
            truthy (get_json_silent body) \<and> raises_only_COSError (cos_client env) \<and>
            get_files_info (cos_client env) (source_bucket env) (world s) = (Inr listing, w) \<and>
            i < length listing \<and> k = JStr (fst (listing ! i)) \<and>
            sweep_world env (take i (map fst listing)) w = w0 \<longrightarrow>
            fst (handle_cron_event env body s) = Inr (Text ''OK'') \<and>
            event_history (snd (handle_cron_event env body s)) =
              event_history s @
                [\<lparr>event_id = ''cron-'' @ str_int (event_stats s cron + 1),
                  event_timestamp = datetime_now env (world s),
                  objects = sweep_entries env (map fst listing) w\<rparr>] \<and>
            length (sweep_entries env (map fst listing) w) = length listing \<and>
            sweep_entries env (map fst listing) w ! i =
              \<lparr>key = k,
                timestamp = datetime_now env w3,
                obj_source_bucket = source_bucket env,
                obj_destination_bucket = destination_bucket env,
                status = ''Deletion Error''\<rparr> \<and>
            sweep_world env (take (Suc i) (map fst listing)) w = w3 \<and>
            world (snd (handle_cron_event env body s)) = sweep_world env (map fst listing) w)"
proof -
  have do_eq: "FileHandler_do (cos_client env) (source_bucket env) (destination_bucket env) k w0 =
      (Some COSError, w3)"
    using assms by (simp add: FileHandler_do_def)
  have try_eq: "try_do env k w0 = (Inr ''Deletion Error'', w3)"
    using do_eq by (simp add: try_do_def)
  have notif: "handle_cos_event env (Some ev) s =
              (Inr (Text ''OK''),
               s\<lparr>event_stats := (event_stats s)(cos := event_stats s cos + 1),
                 world := w3,
                 event_history := event_history s @
                   [\<lparr>event_id = ''cos-'' @ str_int (event_stats s cos + 1),
                     event_timestamp = datetime_now env (world s),
                     objects =
                       [\<lparr>key = k,
                         timestamp = datetime_now env w3,
                         obj_source_bucket = source_bucket env,
                         obj_destination_bucket = destination_bucket env,
                         status = ''Deletion Error''\<rparr>]\<rparr>],
                 buckets :=
                   (if source_bucket env \<notin> set (buckets s)
                    then buckets s @ [source_bucket env] else buckets s)\<rparr>)"
    if "getitem ev ''bucket'' = Inr (JStr (source_bucket env))"
      and "getitem ev ''key'' = Inr k" and "world s = w0" for ev and s :: "'a server"
    using that try_eq getitem_Inr_truthy[OF that(1)]
    by (simp add: handle_cos_event_def get_json_silent_def Let_def)
  have step: "reconcile env (f # fs) acc w0 =
              reconcile env fs
                (acc @ [\<lparr>key = JStr f,
                         timestamp = datetime_now env w3,
                         obj_source_bucket = source_bucket env,
                         obj_destination_bucket = destination_bucket env,
                         status = ''Deletion Error''\<rparr>]) w3"
    if "k = JStr f" for f fs acc
    using that try_eq by simp
  have sweep: "fst (handle_cron_event env body s) = Inr (Text ''OK'') \<and>
            event_history (snd (handle_cron_event env body s)) =
              event_history s @
                [\<lparr>event_id = ''cron-'' @ str_int (event_stats s cron + 1),
                  event_timestamp = datetime_now env (world s),
                  objects = sweep_entries env (map fst listing) w\<rparr>] \<and>
            length (sweep_entries env (map fst listing) w) = length listing \<and>
            sweep_entries env (map fst listing) w ! i =
              \<lparr>key = k,
                timestamp = datetime_now env w3,
                obj_source_bucket = source_bucket env,
                obj_destination_bucket = destination_bucket env,
                status = ''Deletion Error''\<rparr> \<and>
            sweep_world env (take (Suc i) (map fst listing)) w = w3 \<and>
            world (snd (handle_cron_event env body s)) = sweep_world env (map fst listing) w"
    if "truthy (get_json_silent body)" and "raises_only_COSError (cos_client env)"
      and "get_files_info (cos_client env) (source_bucket env) (world s) = (Inr listing, w)"
      and "i < length listing" and "k = JStr (fst (listing ! i))"
      and "sweep_world env (take i (map fst listing)) w = w0"
    for body and s :: "'a server" and listing w i
  proof -
    have i: "i < length (map fst listing)" and nth: "map fst listing ! i = fst (listing ! i)"
      using that(4) by simp_all
    have entry: "sweep_entries env (map fst listing) w ! i =
        sweep_entry env (fst (listing ! i)) w0"
      using sweep_entries_nth[OF i, of env w] that(6) nth by simp
    have next_world: "sweep_world env (take (Suc i) (map fst listing)) w = w3"
      using sweep_world_take_Suc[OF i, of env w] that(5,6) nth do_eq by simp
    show ?thesis
      using handle_cron_event_sweep[OF that(1,2,3)] entry next_world that(5) do_eq
      by (simp add: sweep_entry_def length_sweep_entries)
  qed
  show ?thesis
    using do_eq try_eq notif step sweep by blast
qed


theorem delete_failure_is_recorded_not_raised_witness:
  "get_file (cos_client delete_fails) (source_bucket delete_fails) (JStr ''a'')
     (world (create_server delete_fails [])) = (None, [Get ''src'' (JStr ''a'')]) \<and>
   put_file (cos_client delete_fails) (destination_bucket delete_fails) (JStr ''a'')
     [Get ''src'' (JStr ''a'')] = (None, [Get ''src'' (JStr ''a''), Put ''dst'' (JStr ''a'')]) \<and>
   delete_file (cos_client delete_fails) (source_bucket delete_fails) (JStr ''a'')
     [Get ''src'' (JStr ''a''), Put ''dst'' (JStr ''a'')] =
     (Some COSError,
      [Get ''src'' (JStr ''a''), Put ''dst'' (JStr ''a''), Delete ''src'' (JStr ''a'')]) \<and>
   getitem (notification ''src'' ''a'') ''bucket'' = Inr (JStr (source_bucket delete_fails)) \<and>
   getitem (notification ''src'' ''a'') ''key'' = Inr (JStr ''a'') \<and>
   fst (handle_cos_event delete_fails (Some (notification ''src'' ''a''))
         (create_server delete_fails [])) = Inr (Text ''OK'') \<and>
   world (snd (handle_cos_event delete_fails (Some (notification ''src'' ''a''))
         (create_server delete_fails []))) =
     [Get ''src'' (JStr ''a''), Put ''dst'' (JStr ''a''), Delete ''src'' (JStr ''a'')] \<and>
   event_history (snd (handle_cos_event delete_fails (Some (notification ''src'' ''a''))
         (create_server delete_fails []))) =
     [\<lparr>event_id = ''cos-1'', event_timestamp = 0,
       objects = [\<lparr>key = JStr ''a'', timestamp = 3, obj_source_bucket = ''src'',
                   obj_destination_bucket = ''dst'', status = ''Deletion Error''\<rparr>]\<rparr>] \<and>
   get_file (cos_client three_files) (source_bucket three_files) (JStr ''c'')
     [Listing ''src'', Get ''src'' (JStr ''a''), Put ''dst'' (JStr ''a''),
      Delete ''src'' (JStr ''a''), Get ''src'' (JStr ''b'')] =
     (None, [Listing ''src'', Get ''src'' (JStr ''a''), Put ''dst'' (JStr ''a''),
      Delete ''src'' (JStr ''a''), Get ''src'' (JStr ''b''), Get ''src'' (JStr ''c'')]) \<and>
   put_file (cos_client three_files) (destination_bucket three_files) (JStr ''c'')
     [Listing ''src'', Get ''src'' (JStr ''a''), Put ''dst'' (JStr ''a''),
      Delete ''src'' (JStr ''a''), Get ''src'' (JStr ''b''), Get ''src'' (JStr ''c'')] =
     (None, [Listing ''src'', Get ''src'' (JStr ''a''), Put ''dst'' (JStr ''a''),
      Delete ''src'' (JStr ''a''), Get ''src'' (JStr ''b''), Get ''src'' (JStr ''c''),
      Put ''dst'' (JStr ''c'')]) \<and>
   delete_file (cos_client three_files) (source_bucket three_files) (JStr ''c'')
     [Listing ''src'', Get ''src'' (JStr ''a''), Put ''dst'' (JStr ''a''),
      Delete ''src'' (JStr ''a''), Get ''src'' (JStr ''b''), Get ''src'' (JStr ''c''),
      Put ''dst'' (JStr ''c'')] =
     (Some COSError, [Listing ''src'', Get ''src'' (JStr ''a''), Put ''dst'' (JStr ''a''),
      Delete ''src'' (JStr ''a''), Get ''src'' (JStr ''b''), Get ''src'' (JStr ''c''),
      Put ''dst'' (JStr ''c''), Delete ''src'' (JStr ''c'')]) \<and>
   truthy (get_json_silent (Some (JObj [(''tick'', JNum 1)]))) \<and>
   raises_only_COSError (cos_client three_files) \<and>
   get_files_info (cos_client three_files) (source_bucket three_files)
     (world (create_server three_files [])) =
     (Inr [(''a'', ()), (''b'', ()), (''c'', ())], [Listing ''src'']) \<and>
   (2::nat) < length [(''a'', ()), (''b'', ()), (''c'', ())] \<and>
   JStr ''c'' = JStr (fst ([(''a'', ()), (''b'', ()), (''c'', ())] ! 2)) \<and>
   sweep_world three_files (take 2 (map fst [(''a'', ()), (''b'', ()), (''c'', ())]))
     [Listing ''src''] =
     [Listing ''src'', Get ''src'' (JStr ''a''), Put ''dst'' (JStr ''a''),
      Delete ''src'' (JStr ''a''), Get ''src'' (JStr ''b'')] \<and>
   fst (handle_cron_event three_files (Some (JObj [(''tick'', JNum 1)]))
          (create_server three_files [])) = Inr (Text ''OK'') \<and>
   map objects (event_history (snd (handle_cron_event three_files
          (Some (JObj [(''tick'', JNum 1)])) (create_server three_files [])))) =
     [[\<lparr>key = JStr ''a'', timestamp = 4, obj_source_bucket = ''src'',
         obj_destination_bucket = ''dst'', status = ''OK''\<rparr>,
       \<lparr>key = JStr ''b'', timestamp = 5, obj_source_bucket = ''src'',
         obj_destination_bucket = ''dst'', status = ''Deletion Error''\<rparr>,
       \<lparr>key = JStr ''c'', timestamp = 8, obj_source_bucket = ''src'',
         obj_destination_bucket = ''dst'', status = ''Deletion Error''\<rparr>]]"
proof -
  have g: "get_file (cos_client delete_fails) (source_bucket delete_fails) (JStr ''a'')
     (world (create_server delete_fails [])) = (None, [Get ''src'' (JStr ''a'')])"
    by (simp add: run_defs)
  have p: "put_file (cos_client delete_fails) (destination_bucket delete_fails) (JStr ''a'')
     [Get ''src'' (JStr ''a'')] = (None, [Get ''src'' (JStr ''a''), Put ''dst'' (JStr ''a'')])"
    by (simp add: run_defs)
  have d: "delete_file (cos_client delete_fails) (source_bucket delete_fails) (JStr ''a'')
     [Get ''src'' (JStr ''a''), Put ''dst'' (JStr ''a'')] =
     (Some COSError,
      [Get ''src'' (JStr ''a''), Put ''dst'' (JStr ''a''), Delete ''src'' (JStr ''a'')])"
    by (simp add: run_defs)
  have g': "get_file (cos_client three_files) (source_bucket three_files) (JStr ''c'')
     [Listing ''src'', Get ''src'' (JStr ''a''), Put ''dst'' (JStr ''a''),
      Delete ''src'' (JStr ''a''), Get ''src'' (JStr ''b'')] =
     (None, [Listing ''src'', Get ''src'' (JStr ''a''), Put ''dst'' (JStr ''a''),
      Delete ''src'' (JStr ''a''), Get ''src'' (JStr ''b''), Get ''src'' (JStr ''c'')])"
    by (simp add: run_defs)
  have p': "put_file (cos_client three_files) (destination_bucket three_files) (JStr ''c'')
     [Listing ''src'', Get ''src'' (JStr ''a''), Put ''dst'' (JStr ''a''),
      Delete ''src'' (JStr ''a''), Get ''src'' (JStr ''b''), Get ''src'' (JStr ''c'')] =
     (None, [Listing ''src'', Get ''src'' (JStr ''a''), Put ''dst'' (JStr ''a''),
      Delete ''src'' (JStr ''a''), Get ''src'' (JStr ''b''), Get ''src'' (JStr ''c''),
      Put ''dst'' (JStr ''c'')])"
    by (simp add: run_defs)
  have d': "delete_file (cos_client three_files) (source_bucket three_files) (JStr ''c'')
     [Listing ''src'', Get ''src'' (JStr ''a''), Put ''dst'' (JStr ''a''),
      Delete ''src'' (JStr ''a''), Get ''src'' (JStr ''b''), Get ''src'' (JStr ''c''),
      Put ''dst'' (JStr ''c'')] =
     (Some COSError, [Listing ''src'', Get ''src'' (JStr ''a''), Put ''dst'' (JStr ''a''),
      Delete ''src'' (JStr ''a''), Get ''src'' (JStr ''b''), Get ''src'' (JStr ''c''),
      Put ''dst'' (JStr ''c''), Delete ''src'' (JStr ''c'')])"
    by (simp add: run_defs)
  have c: "raises_only_COSError (cos_client three_files)"
    unfolding three_files_def by (rule scripted_contract)
  have w: "sweep_world three_files (take 2 (map fst [(''a'', ()), (''b'', ()), (''c'', ())]))
     [Listing ''src''] =
     [Listing ''src'', Get ''src'' (JStr ''a''), Put ''dst'' (JStr ''a''),
      Delete ''src'' (JStr ''a''), Get ''src'' (JStr ''b'')]"
    by (simp add: run_defs)
  note notification_case = delete_failure_is_recorded_not_raised[OF g p d]
  note sweep_case = delete_failure_is_recorded_not_raised[OF g' p' d']
  show ?thesis
    using g p d g' p' d' c w notification_case sweep_case
    by (simp add: run_defs)
qed




text \<open>C4 (evaluation at the failing input). The empty object \<^verbatim>\<open>{}\<close> is well-formed
  JSON and is falsy in Python, so \<^verbatim>\<open>if event:\<close> sends it to the \<^verbatim>\<open>else\<close> branch:
  \<^verbatim>\<open>cron_error\<close> is incremented, the answer is 400, and no sweep is run.\<close>

theorem empty_object_is_rejected:
  "handle_cron_event env (Some (JObj [])) s =
     (Inl (HTTPException 400),
      s\<lparr>event_stats := (event_stats s)(cron_error := event_stats s cron_error + 1)\<rparr>)"
  by (simp add: handle_cron_event_def get_json_silent_def)

theorem empty_object_is_rejected_witness:
  "fst (handle_cron_event three_files (Some (JObj [])) (create_server three_files [])) =
     Inl (HTTPException 400) \<and>
   event_stats (snd (handle_cron_event three_files (Some (JObj []))
     (create_server three_files []))) cron = 0 \<and>
   event_stats (snd (handle_cron_event three_files (Some (JObj []))
     (create_server three_files []))) cron_error = 1 \<and>
   world (snd (handle_cron_event three_files (Some (JObj []))
     (create_server three_files []))) = []"
  using empty_object_is_rejected[of three_files "create_server three_files []"]
  by (simp add: run_defs)

text \<open>C5 (as stated, refuted). After the one notification \<^verbatim>\<open>{"key": "a"}\<close> the two
  counters add up to 0, and one notification was received.\<close>

theorem cos_total_counterexample:
  "event_stats (run fetch_fails [POST_events_cos (Some (JObj [(''key'', JStr ''a'')]))]
      (create_server fetch_fails [])) cos +
   event_stats (run fetch_fails [POST_events_cos (Some (JObj [(''key'', JStr ''a'')]))]
      (create_server fetch_fails [])) cos_error
   \<noteq> int (length (filter is_notification
           [POST_events_cos (Some (JObj [(''key'', JStr ''a'')]))]))"
  by (simp add: is_notification_def run_defs)

text \<open>C5 (amended). After any sequence of requests, \<^verbatim>\<open>cos\<close> plus \<^verbatim>\<open>cos_error\<close> is the
  number of the notifications received whose body was falsy (or did not parse) or had a
  \<^verbatim>\<open>'bucket'\<close> entry; it is at most the number of notifications received.\<close>

theorem cos_total:
  "event_stats (run env rs (create_server env w)) cos +
   event_stats (run env rs (create_server env w)) cos_error =
     int (length (filter counted_notification rs)) \<and>
   event_stats (run env rs (create_server env w)) cos +
   event_stats (run env rs (create_server env w)) cos_error \<le>
     int (length (filter is_notification rs))"
  using run_cos_total[of env rs "create_server env w"] counted_le_notifications[of rs]
  by (simp add: create_server_def)

theorem cos_total_witness:
  "event_stats (run delete_fails
      [POST_events_cos (Some (notification ''src'' ''a'')), POST_events_cos None,
       POST_events_cos (Some (JObj [(''key'', JStr ''a'')])), POST_events_cron None]
      (create_server delete_fails [])) cos +
   event_stats (run delete_fails
      [POST_events_cos (Some (notification ''src'' ''a'')), POST_events_cos None,
       POST_events_cos (Some (JObj [(''key'', JStr ''a'')])), POST_events_cron None]
      (create_server delete_fails [])) cos_error = 2"
  using cos_total[of delete_fails
      "[POST_events_cos (Some (notification ''src'' ''a'')), POST_events_cos None,
       POST_events_cos (Some (JObj [(''key'', JStr ''a'')])), POST_events_cron None]" "[]"]
  by (simp add: counted_notification_def get_json_silent_def notification_def)

text \<open>C6. An accepted reconciliation trigger (a truthy body) whose listing of the
  source bucket returns \<open>n\<close> files, with a client whose file operations fail only with
  the storage error, answers \<^verbatim>\<open>'OK'\<close> and appends exactly one record to the history.
  The record has \<open>n\<close> entries, one per listed file and in the order of the listing; the
  \<open>i\<close>-th entry has the status of \<^verbatim>\<open>do\<close> for the \<open>i\<close>-th file, run in the world that
  the files before it left, whatever their outcomes; and the world after the trigger is
  the one left by \<^verbatim>\<open>do\<close> for all \<open>n\<close> files, so every listed file is attempted. The
  record is appended after the loop and not file by file: for every client, a trigger
  that ends with an exception leaves the history as it was, however many files were
  migrated before.\<close>

theorem sweep_appends_one_record:
  "(truthy (get_json_silent body) \<and> raises_only_COSError (cos_client env) \<and>
    get_files_info (cos_client env) (source_bucket env) (world s) = (Inr listing, w) \<longrightarrow>
      handle_cron_event env body s =
        (Inr (Text ''OK''),
         s\<lparr>event_stats := (event_stats s)(cron := event_stats s cron + 1),
           world := sweep_world env (map fst listing) w,
           event_history := event_history s @
             [\<lparr>event_id = ''cron-'' @ str_int (event_stats s cron + 1),
               event_timestamp = datetime_now env (world s),
               objects = sweep_entries env (map fst listing) w\<rparr>]\<rparr>) \<and>
      reconcile env (map fst listing) [] w =
        (Inr (sweep_entries env (map fst listing) w), sweep_world env (map fst listing) w) \<and>
      length (sweep_entries env (map fst listing) w) = length listing \<and>
      map key (sweep_entries env (map fst listing) w) = map (\<lambda>fi. JStr (fst fi)) listing \<and>
      (\<forall>i < length listing.
         sweep_entries env (map fst listing) w ! i =
           sweep_entry env (fst (listing ! i))
             (sweep_world env (take i (map fst listing)) w) \<and>
         sweep_world env (take (Suc i) (map fst listing)) w =
           snd (FileHandler_do (cos_client env) (source_bucket env) (destination_bucket env)
                  (JStr (fst (listing ! i)))
                  (sweep_world env (take i (map fst listing)) w)))) \<and>
   (\<forall>e. fst (handle_cron_event env body s) = Inl e \<longrightarrow>
      event_history (snd (handle_cron_event env body s)) = event_history s)"
proof -
  have sweep: "handle_cron_event env body s =
        (Inr (Text ''OK''),
         s\<lparr>event_stats := (event_stats s)(cron := event_stats s cron + 1),
           world := sweep_world env (map fst listing) w,
           event_history := event_history s @
             [\<lparr>event_id = ''cron-'' @ str_int (event_stats s cron + 1),
               event_timestamp = datetime_now env (world s),
               objects = sweep_entries env (map fst listing) w\<rparr>]\<rparr>) \<and>
      reconcile env (map fst listing) [] w =
        (Inr (sweep_entries env (map fst listing) w), sweep_world env (map fst listing) w) \<and>
      length (sweep_entries env (map fst listing) w) = length listing \<and>
      map key (sweep_entries env (map fst listing) w) = map (\<lambda>fi. JStr (fst fi)) listing \<and>
      (\<forall>i < length listing.
         sweep_entries env (map fst listing) w ! i =
           sweep_entry env (fst (listing ! i))
             (sweep_world env (take i (map fst listing)) w) \<and>
         sweep_world env (take (Suc i) (map fst listing)) w =
           snd (FileHandler_do (cos_client env) (source_bucket env) (destination_bucket env)
                  (JStr (fst (listing ! i)))
                  (sweep_world env (take i (map fst listing)) w)))"
    if t: "truthy (get_json_silent body)" and c: "raises_only_COSError (cos_client env)"
      and l: "get_files_info (cos_client env) (source_bucket env) (world s) = (Inr listing, w)"
  proof -
    have keys: "map key (sweep_entries env (map fst listing) w) =
        map (\<lambda>fi. JStr (fst fi)) listing"
      by (simp add: key_sweep_entries comp_def)
    have each: "sweep_entries env (map fst listing) w ! i =
           sweep_entry env (fst (listing ! i))
             (sweep_world env (take i (map fst listing)) w) \<and>
         sweep_world env (take (Suc i) (map fst listing)) w =
           snd (FileHandler_do (cos_client env) (source_bucket env) (destination_bucket env)
                  (JStr (fst (listing ! i)))
                  (sweep_world env (take i (map fst listing)) w))"
      if "i < length listing" for i
      using that sweep_entries_nth[of i "map fst listing" env w]
        sweep_world_take_Suc[of i "map fst listing" env w]
      by simp
    show ?thesis
      using handle_cron_event_sweep[OF t c l] reconcile_sweep[OF c, of "map fst listing" "[]" w]
        keys each
      by (simp add: length_sweep_entries)
  qed
  show ?thesis
    using sweep handle_cron_event_raises[of env body s] by blast
qed

theorem sweep_appends_one_record_witness:
  "truthy (get_json_silent (Some (JObj [(''tick'', JNum 1)]))) \<and>
   raises_only_COSError (cos_client three_files) \<and>
   get_files_info (cos_client three_files) (source_bucket three_files)
     (world (create_server three_files [])) =
     (Inr [(''a'', ()), (''b'', ()), (''c'', ())], [Listing ''src'']) \<and>
   fst (handle_cron_event three_files (Some (JObj [(''tick'', JNum 1)]))
          (create_server three_files [])) = Inr (Text ''OK'') \<and>
   event_history (snd (handle_cron_event three_files (Some (JObj [(''tick'', JNum 1)]))
          (create_server three_files []))) =
     [\<lparr>event_id = ''cron-1'', event_timestamp = 0,
       objects =
         [\<lparr>key = JStr ''a'', timestamp = 4, obj_source_bucket = ''src'',
            obj_destination_bucket = ''dst'', status = ''OK''\<rparr>,
          \<lparr>key = JStr ''b'', timestamp = 5, obj_source_bucket = ''src'',
            obj_destination_bucket = ''dst'', status = ''Deletion Error''\<rparr>,
          \<lparr>key = JStr ''c'', timestamp = 8, obj_source_bucket = ''src'',
            obj_destination_bucket = ''dst'', status = ''Deletion Error''\<rparr>]\<rparr>] \<and>
   world (snd (handle_cron_event three_files (Some (JObj [(''tick'', JNum 1)]))
          (create_server three_files []))) =
     [Listing ''src'',
      Get ''src'' (JStr ''a''), Put ''dst'' (JStr ''a''), Delete ''src'' (JStr ''a''),
      Get ''src'' (JStr ''b''),
      Get ''src'' (JStr ''c''), Put ''dst'' (JStr ''c''), Delete ''src'' (JStr ''c'')] \<and>
   fst (handle_cron_event crash_on_b (Some (JObj [(''tick'', JNum 1)]))
          (create_server crash_on_b [])) = Inl OtherException \<and>
   event_history (snd (handle_cron_event crash_on_b (Some (JObj [(''tick'', JNum 1)]))
          (create_server crash_on_b []))) = [] \<and>
   world (snd (handle_cron_event crash_on_b (Some (JObj [(''tick'', JNum 1)]))
          (create_server crash_on_b []))) =
     [Listing ''src'',
      Get ''src'' (JStr ''a''), Put ''dst'' (JStr ''a''), Delete ''src'' (JStr ''a''),
      Get ''src'' (JStr ''b'')]"
proof -
  have t: "truthy (get_json_silent (Some (JObj [(''tick'', JNum 1)])))"
    by (simp add: get_json_silent_def)
  have c: "raises_only_COSError (cos_client three_files)"
    unfolding three_files_def by (rule scripted_contract)
  have l: "get_files_info (cos_client three_files) (source_bucket three_files)
     (world (create_server three_files [])) =
     (Inr [(''a'', ()), (''b'', ()), (''c'', ())], [Listing ''src''])"
    by (simp add: run_defs)
  have r: "fst (handle_cron_event crash_on_b (Some (JObj [(''tick'', JNum 1)]))
          (create_server crash_on_b [])) = Inl OtherException"
    by (simp add: run_defs crash_on_b_def)
  note completed = sweep_appends_one_record
    [of "Some (JObj [(''tick'', JNum 1)])" three_files "create_server three_files []"
      "[(''a'', ()), (''b'', ()), (''c'', ())]" "[Listing ''src'']", THEN conjunct1, rule_format,
      OF conjI, OF t conjI, OF c l]
  note cut_short = sweep_appends_one_record
    [of "Some (JObj [(''tick'', JNum 1)])" crash_on_b "create_server crash_on_b []",
      THEN conjunct2, rule_format, OF r]
  have ok: "fst (handle_cron_event three_files (Some (JObj [(''tick'', JNum 1)]))
          (create_server three_files [])) = Inr (Text ''OK'')"
    using completed by simp
  have none: "event_history (snd (handle_cron_event crash_on_b (Some (JObj [(''tick'', JNum 1)]))
          (create_server crash_on_b []))) = []"
    using cut_short by (simp add: create_server_def)
  have run: "event_history (snd (handle_cron_event three_files (Some (JObj [(''tick'', JNum 1)]))
          (create_server three_files []))) =
     [\<lparr>event_id = ''cron-1'', event_timestamp = 0,
       objects =
         [\<lparr>key = JStr ''a'', timestamp = 4, obj_source_bucket = ''src'',
            obj_destination_bucket = ''dst'', status = ''OK''\<rparr>,
          \<lparr>key = JStr ''b'', timestamp = 5, obj_source_bucket = ''src'',
            obj_destination_bucket = ''dst'', status = ''Deletion Error''\<rparr>,
          \<lparr>key = JStr ''c'', timestamp = 8, obj_source_bucket = ''src'',
            obj_destination_bucket = ''dst'', status = ''Deletion Error''\<rparr>]\<rparr>] \<and>
   world (snd (handle_cron_event three_files (Some (JObj [(''tick'', JNum 1)]))
          (create_server three_files []))) =
     [Listing ''src'',
      Get ''src'' (JStr ''a''), Put ''dst'' (JStr ''a''), Delete ''src'' (JStr ''a''),
      Get ''src'' (JStr ''b''),
      Get ''src'' (JStr ''c''), Put ''dst'' (JStr ''c''), Delete ''src'' (JStr ''c'')] \<and>
   world (snd (handle_cron_event crash_on_b (Some (JObj [(''tick'', JNum 1)]))
          (create_server crash_on_b []))) =
     [Listing ''src'',
      Get ''src'' (JStr ''a''), Put ''dst'' (JStr ''a''), Delete ''src'' (JStr ''a''),
      Get ''src'' (JStr ''b'')]"
    by (simp add: run_defs crash_on_b_def)
  show ?thesis
    using t c l r ok none run by simp
qed

text \<open>C7. A notification whose body has a \<^verbatim>\<open>'bucket'\<close> entry equal to the configured
  source bucket and a \<^verbatim>\<open>'key'\<close> entry, with a client whose file operations fail only
  with the storage error, increments \<^verbatim>\<open>cos\<close> by exactly 1, leaves the other counters,
  answers \<^verbatim>\<open>'OK'\<close>, and appends exactly one record, whose only entry has the key of
  the body.\<close>

theorem accepted_notification_appends_one_record:
  assumes "getitem ev ''bucket'' = Inr (JStr (source_bucket env))"
    and "getitem ev ''key'' = Inr k"
    and "raises_only_COSError (cos_client env)"
  shows "\<exists>st w'.
           fst (handle_cos_event env (Some ev) s) = Inr (Text ''OK'') \<and>
           event_stats (snd (handle_cos_event env (Some ev) s)) =
             (event_stats s)(cos := event_stats s cos + 1) \<and>
           event_history (snd (handle_cos_event env (Some ev) s)) =
             event_history s @
               [\<lparr>event_id = ''cos-'' @ str_int (event_stats s cos + 1),
                 event_timestamp = datetime_now env (world s),
                 objects =
                   [\<lparr>key = k,
                     timestamp = datetime_now env w',
                     obj_source_bucket = source_bucket env,
                     obj_destination_bucket = destination_bucket env,
                     status = st\<rparr>]\<rparr>]"
proof -
  obtain st w' where t: "try_do env k (world s) = (Inr st, w')"
    using try_do_contract[OF assms(3), of k "world s"]
    by (cases "try_do env k (world s)") auto
  have "fst (handle_cos_event env (Some ev) s) = Inr (Text ''OK'') \<and>
           event_stats (snd (handle_cos_event env (Some ev) s)) =
             (event_stats s)(cos := event_stats s cos + 1) \<and>
           event_history (snd (handle_cos_event env (Some ev) s)) =
             event_history s @
               [\<lparr>event_id = ''cos-'' @ str_int (event_stats s cos + 1),
                 event_timestamp = datetime_now env (world s),
                 objects =
                   [\<lparr>key = k,
                     timestamp = datetime_now env w',
                     obj_source_bucket = source_bucket env,
                     obj_destination_bucket = destination_bucket env,
                     status = st\<rparr>]\<rparr>]"
    using assms(1,2) getitem_Inr_truthy[OF assms(1)] t
    by (simp add: handle_cos_event_def get_json_silent_def Let_def)
  then show ?thesis by blast
qed

theorem accepted_notification_appends_one_record_witness:
  "getitem (notification ''src'' ''a'') ''bucket'' = Inr (JStr (source_bucket three_files)) \<and>
   getitem (notification ''src'' ''a'') ''key'' = Inr (JStr ''a'') \<and>
   raises_only_COSError (cos_client three_files) \<and>
   event_stats (snd (handle_cos_event three_files (Some (notification ''src'' ''a''))
      (create_server three_files []))) cos = 1 \<and>
   event_history (snd (handle_cos_event three_files (Some (notification ''src'' ''a''))
      (create_server three_files []))) =
     [\<lparr>event_id = ''cos-1'', event_timestamp = 0,
       objects = [\<lparr>key = JStr ''a'', timestamp = 3, obj_source_bucket = ''src'',
                   obj_destination_bucket = ''dst'', status = ''OK''\<rparr>]\<rparr>]"
proof -
  have b: "getitem (notification ''src'' ''a'') ''bucket'' =
      Inr (JStr (source_bucket three_files))"
    by (simp add: run_defs)
  have k: "getitem (notification ''src'' ''a'') ''key'' = Inr (JStr ''a'')"
    by (simp add: run_defs)
  have c: "raises_only_COSError (cos_client three_files)"
    unfolding three_files_def by (rule scripted_contract)
  show ?thesis
    using b k c accepted_notification_appends_one_record[OF b k c, of "create_server three_files []"]
    by (simp add: run_defs)
qed

text \<open>C8. A notification whose body has a \<^verbatim>\<open>'bucket'\<close> entry different from the
  configured source bucket is answered with 400; \<^verbatim>\<open>cos_error\<close> is incremented by 1 and
  nothing else of the state changes: no record is appended and the storage client is not
  called (the world is as it was, for every client).\<close>

theorem foreign_bucket_is_rejected:
  assumes "getitem ev ''bucket'' = Inr b"
    and "b \<noteq> JStr (source_bucket env)"
  shows "handle_cos_event env (Some ev) s =
           (Inl (HTTPException 400),
            s\<lparr>event_stats := (event_stats s)(cos_error := event_stats s cos_error + 1)\<rparr>)"
  using assms getitem_Inr_truthy[OF assms(1)]
  by (simp add: handle_cos_event_def get_json_silent_def)

theorem foreign_bucket_is_rejected_witness:
  "getitem (notification ''other'' ''a'') ''bucket'' = Inr (JStr ''other'') \<and>
   JStr ''other'' \<noteq> JStr (source_bucket three_files) \<and>
   fst (handle_cos_event three_files (Some (notification ''other'' ''a''))
      (create_server three_files [])) = Inl (HTTPException 400) \<and>
   event_stats (snd (handle_cos_event three_files (Some (notification ''other'' ''a''))
      (create_server three_files []))) cos_error = 1 \<and>
   event_history (snd (handle_cos_event three_files (Some (notification ''other'' ''a''))
      (create_server three_files []))) = [] \<and>
   world (snd (handle_cos_event three_files (Some (notification ''other'' ''a''))
      (create_server three_files []))) = []"
proof -
  have b: "getitem (notification ''other'' ''a'') ''bucket'' = Inr (JStr ''other'')"
    by (simp add: run_defs)
  have n: "JStr ''other'' \<noteq> JStr (source_bucket three_files)"
    by (simp add: run_defs)
  show ?thesis
    using b n foreign_bucket_is_rejected[OF b n, of "create_server three_files []"]
    by (simp add: run_defs)
qed

text \<open>C9. After any sequence of requests, every entry of every record of the history
  has the configured destination bucket as its destination bucket and the configured
  source bucket as its source bucket.\<close>

theorem history_names_configured_buckets:
  "\<forall>h \<in> set (event_history (run env rs (create_server env w))).
     \<forall>ob \<in> set (objects h).
       obj_destination_bucket ob = destination_bucket env \<and>
       obj_source_bucket ob = source_bucket env"
  using run_configured[of env "create_server env w" rs]
  by (simp add: create_server_def list_all_iff configured_def)

theorem history_names_configured_buckets_witness:
  "map (\<lambda>h. map (\<lambda>ob. (obj_source_bucket ob, obj_destination_bucket ob)) (objects h))
     (event_history (run three_files
        [POST_events_cos (Some (notification ''src'' ''a'')),
         POST_events_cron (Some (JObj [(''tick'', JNum 1)]))]
        (create_server three_files []))) =
   [[(source_bucket three_files, destination_bucket three_files)],
    [(source_bucket three_files, destination_bucket three_files),
     (source_bucket three_files, destination_bucket three_files),
     (source_bucket three_files, destination_bucket three_files)]]"
  using history_names_configured_buckets[of three_files
        "[POST_events_cos (Some (notification ''src'' ''a'')),
         POST_events_cron (Some (JObj [(''tick'', JNum 1)]))]" "[]"]
  by (simp add: run_defs)

text \<open>C10. After any sequence of requests, the list of tracked buckets is the list
  that \<^verbatim>\<open>create_server\<close> built, the source bucket and the destination bucket: the source
  bucket is always in it, so the append of the notification handler is never taken.\<close>

theorem buckets_never_change:
  "buckets (run env rs (create_server env w)) = [source_bucket env, destination_bucket env] \<and>
   source_bucket env \<in> set (buckets (run env rs (create_server env w)))"
  using run_buckets[of env "create_server env w" rs]
  by (simp add: create_server_def)

theorem buckets_never_change_witness:
  "buckets (run three_files
        [POST_events_cos (Some (notification ''src'' ''a'')),
         POST_events_cron (Some (JObj [(''tick'', JNum 1)])), GET_files]
        (create_server three_files [])) = [''src'', ''dst'']"
  using buckets_never_change[of three_files
        "[POST_events_cos (Some (notification ''src'' ''a'')),
         POST_events_cron (Some (JObj [(''tick'', JNum 1)])), GET_files]" "[]"]
  by (simp add: three_files_def scripted_def)

end
